theory Spec2Isabelle
  imports Complex_Main
begin

section \<open>Numbers, categories and profiles\<close>

text \<open>
  Python's \<open>int\<close> is \<open>int\<close>. Python's \<open>float\<close> values (the percentage shares, the
  factors 0.7, 0.3, 0.8, 1.2, 1.3 and 1.5, and every SQLite \<open>REAL\<close> column) are modelled
  as exact rationals: a decimal literal stands for the rational it denotes and arithmetic
  does not round. \<open>int(x)\<close> truncates towards zero.
\<close>

definition py_int :: "rat \<Rightarrow> rat" where
  "py_int x = (if 0 \<le> x then of_int \<lfloor>x\<rfloor> else of_int \<lceil>x\<rceil>)"

text \<open>The ten keys of \<open>MIN_BUDGETS\<close> and of the distribution tables.\<close>

datatype category =
  K_cpu | K_motherboard | K_ram | K_cooling_system | K_psu
  | K_case | K_gpu | K_ssd | K_nvme | K_hdd

text \<open>
  \<open>pc_type\<close> is a string in the source. The six literals that the code compares it with
  are (in the order of the \<open>distributions\<close> dictionary) the gaming computer, the computer
  for graphics work, the office computer, the server, the home computer and the computer
  for programming; \<open>Other\<close> stands for every other string.
\<close>

datatype pc_type = Gaming | Graphics | Office | Server | Home | Programming | Other

section \<open>The budget allocator\<close>

definition MIN_BUDGETS :: "(category \<times> rat) list" where
  "MIN_BUDGETS =
    [(K_cpu, 2699), (K_motherboard, 4499), (K_ram, 450), (K_cooling_system, 299),
     (K_psu, 899), (K_case, 1899), (K_gpu, 5499), (K_ssd, 950), (K_nvme, 1699),
     (K_hdd, 4699)]"

fun distributions :: "pc_type \<Rightarrow> (category \<times> rat) list option" where
  "distributions Gaming = Some
    [(K_cpu, 2/10), (K_gpu, 3/10), (K_motherboard, 9/100), (K_ram, 1/10),
     (K_cooling_system, 4/100), (K_nvme, 5/100), (K_hdd, 5/100), (K_psu, 1/10),
     (K_case, 7/100)]"
| "distributions Graphics = Some
    [(K_cpu, 25/100), (K_gpu, 25/100), (K_motherboard, 9/100), (K_ram, 1/10),
     (K_cooling_system, 3/100), (K_nvme, 6/100), (K_hdd, 5/100), (K_psu, 1/10),
     (K_case, 7/100)]"
| "distributions Office = Some
    [(K_cpu, 2/10), (K_gpu, 5/100), (K_motherboard, 1/10), (K_ram, 15/100),
     (K_cooling_system, 1/10), (K_ssd, 2/10), (K_psu, 1/10), (K_case, 1/10)]"
| "distributions Server = Some
    [(K_cpu, 21/100), (K_gpu, 2/100), (K_motherboard, 10/100), (K_ram, 19/100),
     (K_cooling_system, 1/10), (K_nvme, 1/10), (K_hdd, 1/10), (K_psu, 1/10),
     (K_case, 7/100)]"
| "distributions Home = Some
    [(K_cpu, 17/100), (K_gpu, 15/100), (K_motherboard, 1/10), (K_ram, 15/100),
     (K_cooling_system, 1/10), (K_nvme, 1/10), (K_hdd, 5/100), (K_psu, 1/10),
     (K_case, 1/10)]"
| "distributions Programming = Some
    [(K_cpu, 25/100), (K_gpu, 1/10), (K_motherboard, 1/10), (K_ram, 13/100),
     (K_cooling_system, 7/100), (K_ssd, 1/10), (K_nvme, 1/10), (K_psu, 1/10),
     (K_case, 5/100)]"
| "distributions Other = None"

definition default_distribution :: "(category \<times> rat) list" where
  "default_distribution =
    [(K_cpu, 2/10), (K_gpu, 2/10), (K_motherboard, 1/10), (K_ram, 1/10),
     (K_cooling_system, 7/100), (K_nvme, 1/10), (K_hdd, 8/100), (K_psu, 1/10),
     (K_case, 5/100)]"

text \<open>\<open>distributions.get(pc_type, default)\<close>.\<close>

definition distribution :: "pc_type \<Rightarrow> (category \<times> rat) list" where
  "distribution t = (case distributions t of Some d \<Rightarrow> d | None \<Rightarrow> default_distribution)"

type_synonym budgets = "category \<rightharpoonup> rat"

text \<open>\<open>d.get(k, 0)\<close>.\<close>

definition get0 :: "budgets \<Rightarrow> category \<Rightarrow> rat" where
  "get0 cb k = (case cb k of Some v \<Rightarrow> v | None \<Rightarrow> 0)"

text \<open>The dictionary comprehension \<open>{comp: int(total_budget * perc) ...}\<close>.\<close>

definition raw_budgets :: "pc_type \<Rightarrow> int \<Rightarrow> budgets" where
  "raw_budgets t total_budget =
    map_of (map (\<lambda>(k, perc). (k, py_int (of_int total_budget * perc))) (distribution t))"

text \<open>One iteration of the loop over \<open>MIN_BUDGETS.items()\<close>.\<close>

definition apply_min :: "category \<times> rat \<Rightarrow> budgets \<Rightarrow> budgets" where
  "apply_min cm cb =
    (let component = fst cm; min_price = snd cm in
     case cb component of
       None \<Rightarrow> cb
     | Some v \<Rightarrow>
        if v < min_price then
          let needed = min_price - v;
              cb1 = (if component \<noteq> K_hdd
                     then cb(K_hdd \<mapsto> max 0 (get0 cb K_hdd - needed * (7/10))) else cb);
              cb2 = (if component \<noteq> K_case
                     then cb1(K_case \<mapsto> max 0 (get0 cb1 K_case - needed * (3/10))) else cb1)
          in cb2(component \<mapsto> min_price)
        else cb)"

text \<open>The budgets after the whole minimum-floor loop.\<close>

definition min_budgets_applied :: "pc_type \<Rightarrow> int \<Rightarrow> budgets" where
  "min_budgets_applied t total_budget = fold apply_min MIN_BUDGETS (raw_budgets t total_budget)"

text \<open>\<open>if comp in component_budgets: component_budgets[comp] = int(component_budgets[comp] * f)\<close>.\<close>

definition scale_key :: "rat \<Rightarrow> category \<Rightarrow> budgets \<Rightarrow> budgets" where
  "scale_key f k cb = (case cb k of None \<Rightarrow> cb | Some v \<Rightarrow> cb(k \<mapsto> py_int (v * f)))"

definition expensive_build :: "int \<Rightarrow> budgets \<Rightarrow> budgets" where
  "expensive_build total_budget cb =
    (if total_budget > 100000 then
       let scale = min (3/2) (of_int total_budget / 100000);
           cb1 = fold (scale_key scale) [K_cpu, K_gpu, K_ram, K_nvme] cb
       in fold (scale_key (8/10)) [K_hdd, K_case] cb1
     else cb)"

definition office_server :: "pc_type \<Rightarrow> budgets \<Rightarrow> budgets" where
  "office_server t cb =
    (if t = Office \<or> t = Server then
       let cb1 = cb(K_gpu \<mapsto> min (get0 cb K_gpu) 5000) in
       (case cb1 K_nvme of
          None \<Rightarrow> cb1
        | Some v \<Rightarrow>
           let cb2 = cb1(K_nvme \<mapsto> min v 10000) in
           cb2(K_ssd \<mapsto> get0 cb2 K_ssd + of_int \<lfloor>get0 cb2 K_nvme / 2\<rfloor>))
     else cb)"

definition gaming_adjust :: "pc_type \<Rightarrow> budgets \<Rightarrow> budgets" where
  "gaming_adjust t cb =
    (if t = Gaming then
       let cb1 = cb(K_nvme \<mapsto> max (get0 cb K_nvme) 15000) in
       if get0 cb1 K_ssd > 5000 then cb1(K_ssd \<mapsto> get0 cb1 K_ssd - 3000) else cb1
     else cb)"

definition get_budget_distribution :: "pc_type \<Rightarrow> int \<Rightarrow> budgets" where
  "get_budget_distribution t total_budget =
    gaming_adjust t (office_server t
      (expensive_build total_budget (min_budgets_applied t total_budget)))"

section \<open>The catalog store\<close>

text \<open>
  A table row carries the columns that the queries and the code read. \<open>INTEGER\<close> columns are
  \<open>int\<close>, \<open>REAL\<close> columns are \<open>rat\<close>, \<open>TEXT\<close> columns are \<open>string\<close> (ASCII data, one
  \<open>char\<close> per character). Every column holds a value of its declared type: \<open>NULL\<close> is not
  modelled.
\<close>

record cpu_row =
  cpu_name :: string
  cpu_manufacturer :: string
  cpu_socket :: string
  cpu_cores :: int
  cpu_clock_frequency :: rat
  cpu_ram_type :: string
  cpu_heat_gen :: int
  cpu_energy :: rat
  cpu_price :: int

record motherboard_row =
  motherboard_name :: string
  mb_socket :: string
  mb_form_factor :: string
  mb_ram_type :: string
  mb_max_ram_freq :: rat
  mb_pcie_v :: string
  mb_energy :: rat
  mb_price :: int

record ram_row =
  ram_name :: string
  ram_ram_type :: string
  ram_moduls_in_set :: int
  ram_amount :: int
  ram_clock_freq :: rat
  ram_energy :: rat
  ram_price :: int

record gpu_row =
  gpu_name :: string
  gpu_length :: rat
  gpu_gpu_memory :: int
  gpu_con_interface :: string
  gpu_energy :: rat
  gpu_price :: int

record cooling_row =
  cs_name :: string
  cs_type :: string
  cs_socket :: string
  cs_power_dissipation :: rat
  cs_height :: rat
  cs_price :: int

record ssd_row =
  ssd_storage_name :: string
  ssd_capacity :: int
  ssd_max_data_transfer_rate :: rat
  ssd_connection_interface :: string
  ssd_energy :: rat
  ssd_price :: int

record storage_row =
  storage_name :: string
  storage_type :: string
  storage_capacity :: int
  storage_energy :: rat
  storage_price :: int

record psu_row =
  psu_name :: string
  psu_power :: rat
  psu_certificate :: string
  psu_price :: int

record case_row =
  case_name :: string
  case_motherboard_form :: string
  case_gpu_length :: rat
  case_cooler_height :: rat
  case_lcs_sup :: string
  case_rating :: rat
  case_price :: int

record pc_row =
  pc_name :: string
  pc_cores :: int
  pc_ram :: int
  pc_ssd :: int
  pc_video_card_type :: string
  pc_rating :: rat
  pc_price :: int

record pc_profile_row =
  pp_type :: string
  min_cpu_cores :: int
  min_ram :: int
  gpu_required :: bool
  min_ssd_gb :: int

text \<open>
  The database file. A table is \<open>None\<close> when a statement on it raises (the table does not
  exist in \<open>PC.db\<close>), and \<open>Some rows\<close> with its rows in storage order otherwise.
\<close>

record store =
  t_cpu :: "cpu_row list option"
  t_motherboard :: "motherboard_row list option"
  t_ram :: "ram_row list option"
  t_cooling_system :: "cooling_row list option"
  t_gpu :: "gpu_row list option"
  t_ssd :: "ssd_row list option"
  t_storage :: "storage_row list option"
  t_psu :: "psu_row list option"
  t_cases :: "case_row list option"
  t_pc :: "pc_row list option"
  t_pc_profiles :: "pc_profile_row list option"

datatype exn = OperationalError | KeyError

text \<open>Sequencing of steps that may raise: the first exception ends the run.\<close>

definition bind_exn :: "exn + 'a \<Rightarrow> ('a \<Rightarrow> exn + 'b) \<Rightarrow> exn + 'b" where
  "bind_exn m f = (case m of Inl e \<Rightarrow> Inl e | Inr x \<Rightarrow> f x)"

text \<open>\<open>cur.execute\<close> on a table.\<close>

definition execute :: "'a list option \<Rightarrow> exn + 'a list" where
  "execute tbl = (case tbl of None \<Rightarrow> Inl OperationalError | Some rows \<Rightarrow> Inr rows)"

text \<open>\<open>component_budgets[k]\<close>.\<close>

definition getitem :: "budgets \<Rightarrow> category \<Rightarrow> exn + rat" where
  "getitem cb k = (case cb k of None \<Rightarrow> Inl KeyError | Some v \<Rightarrow> Inr v)"

subsection \<open>SQL operators\<close>

text \<open>
  \<open>LIKE\<close> as SQLite evaluates it: \<open>%\<close> matches any sequence of characters, \<open>_\<close> any one
  character, and every other character matches itself without regard to ASCII case.
\<close>

definition ascii_lower :: "char \<Rightarrow> char" where
  "ascii_lower c =
    (case map_of (zip ''ABCDEFGHIJKLMNOPQRSTUVWXYZ'' ''abcdefghijklmnopqrstuvwxyz'') c of
       Some l \<Rightarrow> l | None \<Rightarrow> c)"

fun sql_like :: "string \<Rightarrow> string \<Rightarrow> bool" where
  "sql_like [] txt = (txt = [])"
| "sql_like (p # ps) [] = (p = CHR ''%'' \<and> sql_like ps [])"
| "sql_like (p # ps) (c # cs) =
     (if p = CHR ''%'' then sql_like ps (c # cs) \<or> sql_like (p # ps) cs
      else (p = CHR ''_'' \<or> ascii_lower p = ascii_lower c) \<and> sql_like ps cs)"

text \<open>\<open>col LIKE '%' || x || '%'\<close>.\<close>

definition like_contains :: "string \<Rightarrow> string \<Rightarrow> bool" where
  "like_contains col x = sql_like (''%'' @ x @ ''%'') col"

text \<open>
  \<open>ORDER BY\<close>: a stable insertion sort by the relation \<open>prec\<close>, "sorts strictly before"; rows that
  the sort keys do not separate keep their storage order. \<open>LIMIT 1\<close> with \<open>fetchone\<close> takes
  the head, \<open>LIMIT n\<close> with \<open>fetchall\<close> the first \<open>n\<close> rows.
\<close>

fun insert_row :: "('a \<Rightarrow> 'a \<Rightarrow> bool) \<Rightarrow> 'a \<Rightarrow> 'a list \<Rightarrow> 'a list" where
  "insert_row prec x [] = [x]"
| "insert_row prec x (y # ys) =
     (if prec y x then y # insert_row prec x ys else x # y # ys)"

definition order_by :: "('a \<Rightarrow> 'a \<Rightarrow> bool) \<Rightarrow> 'a list \<Rightarrow> 'a list" where
  "order_by prec rows = foldr (insert_row prec) rows []"

definition fetchone :: "'a list \<Rightarrow> 'a option" where
  "fetchone rows = (case rows of [] \<Rightarrow> None | r # _ \<Rightarrow> Some r)"

definition select_one :: "('a \<Rightarrow> bool) \<Rightarrow> ('a \<Rightarrow> 'a \<Rightarrow> bool) \<Rightarrow> 'a list \<Rightarrow> 'a option" where
  "select_one cond prec rows = fetchone (order_by prec (filter cond rows))"

section \<open>Prebuilt systems\<close>

definition pc_conditions :: "pc_profile_row \<Rightarrow> int \<Rightarrow> pc_row \<Rightarrow> bool" where
  "pc_conditions profile budget r =
    (pc_cores r \<ge> min_cpu_cores profile \<and> pc_ram r \<ge> min_ram profile
     \<and> pc_ssd r \<ge> min_ssd_gb profile \<and> pc_price r \<le> budget
     \<and> (if gpu_required profile then sql_like ''%Discrete%'' (pc_video_card_type r) else True))"

text \<open>\<open>ORDER BY price DESC, rating DESC\<close>.\<close>

definition pc_order :: "pc_row \<Rightarrow> pc_row \<Rightarrow> bool" where
  "pc_order a b =
    (pc_price a > pc_price b \<or> (pc_price a = pc_price b \<and> pc_rating a > pc_rating b))"

text \<open>
  Neither function catches exceptions, so a raising statement is the result \<open>Inl\<close>.
\<close>

definition find_best_ready_pc :: "store \<Rightarrow> string \<Rightarrow> int \<Rightarrow> exn + pc_row option" where
  "find_best_ready_pc db profile_type budget =
    bind_exn (execute (t_pc_profiles db)) (\<lambda>profiles.
      case fetchone (filter (\<lambda>p. pp_type p = profile_type) profiles) of
        None \<Rightarrow> Inr None
      | Some profile \<Rightarrow>
          bind_exn (execute (t_pc db)) (\<lambda>pcs.
            Inr (select_one (pc_conditions profile budget) pc_order pcs)))"

definition find_next_ready_pc ::
  "store \<Rightarrow> string \<Rightarrow> int \<Rightarrow> string list \<Rightarrow> exn + pc_row option" where
  "find_next_ready_pc db profile_type budget exclude_names =
    bind_exn (execute (t_pc_profiles db)) (\<lambda>profiles.
      case fetchone (filter (\<lambda>p. pp_type p = profile_type) profiles) of
        None \<Rightarrow> Inr None
      | Some profile \<Rightarrow>
          bind_exn (execute (t_pc db)) (\<lambda>pcs.
            Inr (select_one
                  (\<lambda>r. pc_conditions profile budget r
                       \<and> (if exclude_names \<noteq> [] then pc_name r \<notin> set exclude_names else True))
                  pc_order pcs)))"

section \<open>The resolver\<close>

subsection \<open>The queries\<close>

definition cpu_query :: "rat \<Rightarrow> string option \<Rightarrow> string \<Rightarrow> cpu_row list \<Rightarrow> cpu_row option" where
  "cpu_query budget cpu_brand ram_type rows =
    select_one
      (\<lambda>r. of_int (cpu_price r) \<le> budget
           \<and> (cpu_brand = None \<or> Some (cpu_manufacturer r) = cpu_brand)
           \<and> like_contains (cpu_ram_type r) ram_type)
      (\<lambda>a b. cpu_cores a > cpu_cores b
           \<or> (cpu_cores a = cpu_cores b
               \<and> (cpu_clock_frequency a > cpu_clock_frequency b
                   \<or> (cpu_clock_frequency a = cpu_clock_frequency b
                       \<and> cpu_price a < cpu_price b))))
      rows"

definition mb_query ::
  "string \<Rightarrow> string \<Rightarrow> rat \<Rightarrow> motherboard_row list \<Rightarrow> motherboard_row option" where
  "mb_query socket ram_type budget rows =
    select_one
      (\<lambda>r. mb_socket r = socket \<and> like_contains (mb_ram_type r) ram_type
           \<and> of_int (mb_price r) \<le> budget)
      (\<lambda>a b. mb_max_ram_freq a > mb_max_ram_freq b
           \<or> (mb_max_ram_freq a = mb_max_ram_freq b \<and> mb_price a < mb_price b))
      rows"

definition ram_query :: "string \<Rightarrow> rat \<Rightarrow> rat \<Rightarrow> int \<Rightarrow> ram_row list \<Rightarrow> ram_row option" where
  "ram_query ram_type max_freq budget ram_modules rows =
    select_one
      (\<lambda>r. like_contains (ram_ram_type r) ram_type \<and> ram_clock_freq r \<le> max_freq
           \<and> of_int (ram_price r) \<le> budget \<and> ram_moduls_in_set r \<le> ram_modules)
      (\<lambda>a b. ram_amount a > ram_amount b
           \<or> (ram_amount a = ram_amount b \<and> ram_price a < ram_price b))
      rows"

definition cooling_query :: "string \<Rightarrow> rat \<Rightarrow> rat \<Rightarrow> cooling_row list \<Rightarrow> cooling_row list" where
  "cooling_query socket budget dissipation rows =
    take 3 (order_by
      (\<lambda>a b. cs_power_dissipation a < cs_power_dissipation b
           \<or> (cs_power_dissipation a = cs_power_dissipation b \<and> cs_price a < cs_price b))
      (filter (\<lambda>r. like_contains (cs_socket r) socket \<and> of_int (cs_price r) \<le> budget
                   \<and> cs_power_dissipation r \<ge> dissipation) rows))"

definition gpu_query ::
  "rat \<Rightarrow> string \<Rightarrow> motherboard_row list \<Rightarrow> gpu_row list \<Rightarrow> gpu_row option" where
  "gpu_query budget mb_name mbs rows =
    select_one
      (\<lambda>r. of_int (gpu_price r) \<le> budget
           \<and> gpu_con_interface r
               \<in> set (map mb_pcie_v (filter (\<lambda>m. motherboard_name m = mb_name) mbs)))
      (\<lambda>a b. gpu_gpu_memory a > gpu_gpu_memory b
           \<or> (gpu_gpu_memory a = gpu_gpu_memory b \<and> gpu_price a < gpu_price b))
      rows"

text \<open>The NVMe and the SATA query differ in the \<open>LIKE\<close> pattern only.\<close>

definition ssd_query :: "string \<Rightarrow> rat \<Rightarrow> ssd_row list \<Rightarrow> ssd_row option" where
  "ssd_query pattern budget rows =
    select_one
      (\<lambda>r. sql_like pattern (ssd_connection_interface r) \<and> of_int (ssd_price r) \<le> budget)
      (\<lambda>a b. ssd_capacity a > ssd_capacity b
           \<or> (ssd_capacity a = ssd_capacity b
               \<and> ssd_max_data_transfer_rate a > ssd_max_data_transfer_rate b))
      rows"

definition hdd_query :: "rat \<Rightarrow> storage_row list \<Rightarrow> storage_row option" where
  "hdd_query budget rows =
    select_one (\<lambda>r. storage_type r = ''HDD'' \<and> of_int (storage_price r) \<le> budget)
      (\<lambda>a b. storage_capacity a > storage_capacity b) rows"

text \<open>
  The \<open>CASE\<close> expression of the PSU query: it has no \<open>ELSE\<close>, so any other certificate gives
  \<open>NULL\<close>, and \<open>NULL\<close> sorts before every value in ascending order.
\<close>

definition certificate_rank :: "string \<Rightarrow> int option" where
  "certificate_rank c =
    (if c = ''N'' then Some 1
     else if c \<in> set [''Standart'', ''Bronze'', ''Silver'', ''Gold'', ''Platinum'', ''Titanium'']
     then Some 0 else None)"

fun null_first :: "int option \<Rightarrow> int option \<Rightarrow> bool" where
  "null_first None (Some y) = True"
| "null_first (Some x) (Some y) = (x < y)"
| "null_first a None = False"

definition psu_query :: "rat \<Rightarrow> rat \<Rightarrow> psu_row list \<Rightarrow> psu_row option" where
  "psu_query required_power budget rows =
    select_one (\<lambda>r. psu_power r \<ge> required_power \<and> of_int (psu_price r) \<le> budget)
      (\<lambda>a b. null_first (certificate_rank (psu_certificate a))
                         (certificate_rank (psu_certificate b))
           \<or> (certificate_rank (psu_certificate a) = certificate_rank (psu_certificate b)
               \<and> psu_price a < psu_price b))
      rows"

definition psu_any_query :: "rat \<Rightarrow> psu_row list \<Rightarrow> psu_row option" where
  "psu_any_query required_power rows =
    select_one (\<lambda>r. psu_power r \<ge> required_power) (\<lambda>a b. psu_price a < psu_price b) rows"

definition case_query ::
  "rat \<Rightarrow> string \<Rightarrow> (case_row \<Rightarrow> bool) \<Rightarrow> (case_row \<Rightarrow> bool) \<Rightarrow> case_row list
    \<Rightarrow> case_row option" where
  "case_query budget form gpu_condition cooler_condition rows =
    select_one
      (\<lambda>r. of_int (case_price r) \<le> budget \<and> like_contains (case_motherboard_form r) form
           \<and> gpu_condition r \<and> cooler_condition r)
      (\<lambda>a b. case_rating a > case_rating b
           \<or> (case_rating a = case_rating b \<and> case_price a < case_price b))
      rows"

subsection \<open>The state of one run\<close>

text \<open>The warning texts, in the order in which they occur in the source.\<close>

datatype warning =
  No_cpu_mb_ram | No_gpu | No_psu | No_cooling_system | No_case | Missing_required

text \<open>The dictionary \<open>components\<close>: a key that is not set is \<open>None\<close>.\<close>

record components =
  c_cpu :: "cpu_row option"
  c_motherboard :: "motherboard_row option"
  c_ram :: "ram_row option"
  c_gpu :: "gpu_row option"
  c_nvme :: "ssd_row option"
  c_ssd :: "ssd_row option"
  c_hdd :: "storage_row option"
  c_psu :: "psu_row option"
  c_case :: "case_row option"
  c_cooling_system :: "cooling_row option"
  c_warnings :: "warning list option"

definition empty_components :: components where
  "empty_components =
    \<lparr>c_cpu = None, c_motherboard = None, c_ram = None, c_gpu = None, c_nvme = None,
     c_ssd = None, c_hdd = None, c_psu = None, c_case = None, c_cooling_system = None,
     c_warnings = None\<rparr>"

record build_state =
  comps :: components
  remaining_budget :: int
  total_power :: rat
  warnings :: "warning list"

subsection \<open>CPU, motherboard and RAM\<close>

text \<open>
  One pass of the loop \<open>for ram_type in ['DDR5', 'DDR4']\<close>: \<open>Inr None\<close> is \<open>continue\<close>,
  \<open>Inr (Some _)\<close> reaches \<open>break\<close>.
\<close>

definition try_ram_type ::
  "store \<Rightarrow> budgets \<Rightarrow> int \<Rightarrow> string option \<Rightarrow> string
    \<Rightarrow> exn + (cpu_row \<times> motherboard_row \<times> ram_row) option" where
  "try_ram_type db cb total_budget cpu_brand ram_type =
    bind_exn (getitem cb K_cpu) (\<lambda>b_cpu.
    bind_exn (execute (t_cpu db)) (\<lambda>cpus.
      case cpu_query b_cpu cpu_brand ram_type cpus of
        None \<Rightarrow> Inr None
      | Some cpu \<Rightarrow>
          bind_exn (getitem cb K_motherboard) (\<lambda>b_mb.
          bind_exn (execute (t_motherboard db)) (\<lambda>mbs.
            case mb_query (cpu_socket cpu) ram_type b_mb mbs of
              None \<Rightarrow> Inr None
            | Some mb \<Rightarrow>
                let max_freq = mb_max_ram_freq mb;
                    ram_modules = (if total_budget > 50000 then 2 else 1)
                in bind_exn (getitem cb K_ram) (\<lambda>b_ram.
                   bind_exn (execute (t_ram db)) (\<lambda>rams.
                     case ram_query ram_type max_freq b_ram ram_modules rams of
                       None \<Rightarrow> Inr None
                     | Some ram \<Rightarrow> Inr (Some (cpu, mb, ram))))))))"

fun select_cpu_mb_ram ::
  "store \<Rightarrow> budgets \<Rightarrow> int \<Rightarrow> string option \<Rightarrow> string list
    \<Rightarrow> exn + (cpu_row \<times> motherboard_row \<times> ram_row) option" where
  "select_cpu_mb_ram db cb total_budget cpu_brand [] = Inr None"
| "select_cpu_mb_ram db cb total_budget cpu_brand (ram_type # rest) =
    (case try_ram_type db cb total_budget cpu_brand ram_type of
       Inl e \<Rightarrow> Inl e
     | Inr (Some found) \<Rightarrow> Inr (Some found)
     | Inr None \<Rightarrow> select_cpu_mb_ram db cb total_budget cpu_brand rest)"

text \<open>The state after \<open>components.update\<close> and the two assignments that follow it.\<close>

definition commit_cpu_mb_ram :: "int \<Rightarrow> cpu_row \<Rightarrow> motherboard_row \<Rightarrow> ram_row \<Rightarrow> build_state" where
  "commit_cpu_mb_ram total_budget cpu mb ram =
    \<lparr>comps = empty_components\<lparr>c_cpu := Some cpu, c_motherboard := Some mb, c_ram := Some ram\<rparr>,
     remaining_budget = total_budget - (cpu_price cpu + mb_price mb + ram_price ram),
     total_power = 0 + (cpu_energy cpu + mb_energy mb
                        + ram_energy ram * of_int (ram_moduls_in_set ram)),
     warnings = []\<rparr>"

subsection \<open>Cooling candidates, GPU and storage\<close>

definition potential_coolers :: "store \<Rightarrow> budgets \<Rightarrow> cpu_row \<Rightarrow> exn + cooling_row list" where
  "potential_coolers db cb cpu =
    (let cpu_tdp = cpu_heat_gen cpu in
     bind_exn (getitem cb K_cooling_system) (\<lambda>b.
     bind_exn (execute (t_cooling_system db)) (\<lambda>rows.
       Inr (cooling_query (cpu_socket cpu) b (of_int cpu_tdp * (12/10)) rows))))"

definition select_gpu ::
  "store \<Rightarrow> budgets \<Rightarrow> pc_type \<Rightarrow> motherboard_row \<Rightarrow> build_state \<Rightarrow> exn + build_state" where
  "select_gpu db cb t mb s =
    (if t = Gaming \<or> t = Graphics then
       bind_exn (getitem cb K_gpu) (\<lambda>b.
       bind_exn (execute (t_gpu db)) (\<lambda>gpus.
       bind_exn (execute (t_motherboard db)) (\<lambda>mbs.
         case gpu_query b (motherboard_name mb) mbs gpus of
           Some gpu \<Rightarrow>
             Inr (s\<lparr>comps := (comps s)\<lparr>c_gpu := Some gpu\<rparr>,
                    remaining_budget := remaining_budget s - gpu_price gpu,
                    total_power := total_power s + gpu_energy gpu\<rparr>)
         | None \<Rightarrow> Inr (s\<lparr>warnings := warnings s @ [No_gpu]\<rparr>))))
     else Inr s)"

definition select_nvme :: "store \<Rightarrow> budgets \<Rightarrow> build_state \<Rightarrow> exn + build_state" where
  "select_nvme db cb s =
    (if get0 cb K_nvme > 0 then
       bind_exn (getitem cb K_nvme) (\<lambda>b.
       bind_exn (execute (t_ssd db)) (\<lambda>rows.
         case ssd_query ''%NVMe%'' (min b (of_int (remaining_budget s))) rows of
           Some nvme \<Rightarrow>
             Inr (s\<lparr>comps := (comps s)\<lparr>c_nvme := Some nvme\<rparr>,
                    remaining_budget := remaining_budget s - ssd_price nvme,
                    total_power := total_power s + ssd_energy nvme\<rparr>)
         | None \<Rightarrow> Inr s))
     else Inr s)"

definition select_ssd :: "store \<Rightarrow> budgets \<Rightarrow> build_state \<Rightarrow> exn + build_state" where
  "select_ssd db cb s =
    (if get0 cb K_ssd > 0 \<and> remaining_budget s > 0 then
       bind_exn (getitem cb K_ssd) (\<lambda>b.
       bind_exn (execute (t_ssd db)) (\<lambda>rows.
         case ssd_query ''%SATA%'' (min b (of_int (remaining_budget s))) rows of
           Some ssd \<Rightarrow>
             Inr (s\<lparr>comps := (comps s)\<lparr>c_ssd := Some ssd\<rparr>,
                    remaining_budget := remaining_budget s - ssd_price ssd,
                    total_power := total_power s + ssd_energy ssd\<rparr>)
         | None \<Rightarrow> Inr s))
     else Inr s)"

definition select_hdd :: "store \<Rightarrow> budgets \<Rightarrow> build_state \<Rightarrow> exn + build_state" where
  "select_hdd db cb s =
    (if get0 cb K_hdd > 0 \<and> remaining_budget s > 0 then
       bind_exn (getitem cb K_hdd) (\<lambda>b.
       bind_exn (execute (t_storage db)) (\<lambda>rows.
         case hdd_query (min b (of_int (remaining_budget s))) rows of
           Some hdd \<Rightarrow>
             Inr (s\<lparr>comps := (comps s)\<lparr>c_hdd := Some hdd\<rparr>,
                    remaining_budget := remaining_budget s - storage_price hdd,
                    total_power := total_power s + storage_energy hdd\<rparr>)
         | None \<Rightarrow> Inr s))
     else Inr s)"

subsection \<open>Power supply\<close>

definition required_power :: "pc_type \<Rightarrow> rat \<Rightarrow> rat" where
  "required_power t draw =
    (let required = of_int \<lfloor>(draw + 100) / 50\<rfloor> * 50 in
     if t = Gaming then max (required * (13/10)) 650
     else if t = Graphics then max (required * (12/10)) 550
     else max required 450)"

definition psu_budget :: "rat \<Rightarrow> rat \<Rightarrow> int \<Rightarrow> rat" where
  "psu_budget allocated minimum remaining =
    (let b = max allocated minimum in
     if of_int remaining > b then min (b + of_int (remaining div 2)) (of_int remaining)
     else b)"

definition select_psu :: "store \<Rightarrow> budgets \<Rightarrow> pc_type \<Rightarrow> build_state \<Rightarrow> exn + build_state" where
  "select_psu db cb t s =
    (let required = required_power t (total_power s) in
     bind_exn (getitem cb K_psu) (\<lambda>allocated.
     bind_exn (getitem (map_of MIN_BUDGETS) K_psu) (\<lambda>minimum.
     bind_exn (execute (t_psu db)) (\<lambda>rows.
       let first_try = psu_query required (psu_budget allocated minimum (remaining_budget s)) rows;
           psu = (case first_try of Some p \<Rightarrow> Some p | None \<Rightarrow> psu_any_query required rows)
       in case psu of
            Some p \<Rightarrow>
              Inr (s\<lparr>comps := (comps s)\<lparr>c_psu := Some p\<rparr>,
                     remaining_budget := remaining_budget s - psu_price p\<rparr>)
          | None \<Rightarrow> Inr (s\<lparr>warnings := warnings s @ [No_psu]\<rparr>)))))"

subsection \<open>Case and final cooler\<close>

definition is_liquid :: "cooling_row \<Rightarrow> bool" where
  "is_liquid cooler = (map ascii_lower (cs_type cooler) = ''liquid'')"

text \<open>The test in the loop over \<open>potential_coolers\<close>.\<close>

definition cooler_fits :: "case_row \<Rightarrow> cooling_row \<Rightarrow> bool" where
  "cooler_fits cs cooler =
    (if is_liquid cooler then case_lcs_sup cs = ''Y''
     else cs_height cooler \<le> case_cooler_height cs)"

definition select_case ::
  "store \<Rightarrow> budgets \<Rightarrow> motherboard_row \<Rightarrow> cooling_row list \<Rightarrow> build_state
    \<Rightarrow> exn + build_state" where
  "select_case db cb mb coolers s =
    bind_exn (getitem cb K_case) (\<lambda>b.
      let gpu_condition =
            (case c_gpu (comps s) of
               Some gpu \<Rightarrow> (\<lambda>r. case_gpu_length r \<ge> gpu_length gpu)
             | None \<Rightarrow> (\<lambda>r. True));
          cooler_condition =
            (case coolers of
               [] \<Rightarrow> (\<lambda>r. True)
             | c # _ \<Rightarrow>
                 if is_liquid c then (\<lambda>r. case_lcs_sup r = ''Y'')
                 else (\<lambda>r. case_cooler_height r \<ge> cs_height c))
      in bind_exn (execute (t_cases db)) (\<lambda>rows.
           case case_query b (mb_form_factor mb) gpu_condition cooler_condition rows of
             Some cs \<Rightarrow>
               let s1 = s\<lparr>comps := (comps s)\<lparr>c_case := Some cs\<rparr>,
                          remaining_budget := remaining_budget s - case_price cs\<rparr>
               in (case find (cooler_fits cs) coolers of
                     Some cooler \<Rightarrow>
                       Inr (s1\<lparr>comps := (comps s1)\<lparr>c_cooling_system := Some cooler\<rparr>,
                               remaining_budget := remaining_budget s1 - cs_price cooler\<rparr>)
                   | None \<Rightarrow> Inr (s1\<lparr>warnings := warnings s1 @ [No_cooling_system]\<rparr>))
           | None \<Rightarrow> Inr (s\<lparr>warnings := warnings s @ [No_case]\<rparr>)))"

subsection \<open>The required components and the result\<close>

definition finish :: "build_state \<Rightarrow> components option" where
  "finish s =
    (let c = comps s in
     if c_cpu c \<noteq> None \<and> c_motherboard c \<noteq> None \<and> c_ram c \<noteq> None \<and> c_psu c \<noteq> None
     then Some (if warnings s \<noteq> [] then c\<lparr>c_warnings := Some (warnings s)\<rparr> else c)
     else None)"

text \<open>
  The \<open>try\<close> block up to the storage stage: \<open>Inl\<close> is a raised exception, \<open>Inr None\<close> the
  \<open>return None\<close> of the \<open>else\<close> branch of the loop, and \<open>Inr (Some _)\<close> carries on with the
  motherboard, the cooling candidates and the state.
\<close>

definition select_parts ::
  "store \<Rightarrow> pc_type \<Rightarrow> int \<Rightarrow> string option
    \<Rightarrow> exn + (motherboard_row \<times> cooling_row list \<times> build_state) option" where
  "select_parts db t total_budget cpu_brand =
    (let cb = get_budget_distribution t total_budget in
     bind_exn (select_cpu_mb_ram db cb total_budget cpu_brand [''DDR5'', ''DDR4'']) (\<lambda>found.
       case found of
         None \<Rightarrow> Inr None
       | Some (cpu, mb, ram) \<Rightarrow>
           bind_exn (potential_coolers db cb cpu) (\<lambda>coolers.
           bind_exn (select_gpu db cb t mb (commit_cpu_mb_ram total_budget cpu mb ram)) (\<lambda>s1.
           bind_exn (select_nvme db cb s1) (\<lambda>s2.
           bind_exn (select_ssd db cb s2) (\<lambda>s3.
           bind_exn (select_hdd db cb s3) (\<lambda>s4.
             Inr (Some (mb, coolers, s4)))))))))"

text \<open>The whole body of the \<open>try\<close> block.\<close>

definition auto_build_body ::
  "store \<Rightarrow> pc_type \<Rightarrow> int \<Rightarrow> string option \<Rightarrow> exn + components option" where
  "auto_build_body db t total_budget cpu_brand =
    (let cb = get_budget_distribution t total_budget in
     bind_exn (select_parts db t total_budget cpu_brand) (\<lambda>parts.
       case parts of
         None \<Rightarrow> Inr None
       | Some (mb, coolers, s4) \<Rightarrow>
           bind_exn (select_psu db cb t s4) (\<lambda>s5.
           bind_exn (select_case db cb mb coolers s5) (\<lambda>s6.
             Inr (finish s6)))))"

text \<open>\<open>except Exception\<close>: the exception is logged and the function returns \<open>None\<close>.\<close>

definition auto_build_pc ::
  "store \<Rightarrow> pc_type \<Rightarrow> int \<Rightarrow> string option \<Rightarrow> components option" where
  "auto_build_pc db t total_budget cpu_brand =
    (case auto_build_body db t total_budget cpu_brand of Inl e \<Rightarrow> None | Inr r \<Rightarrow> r)"

section \<open>The specification's formulas\<close>

text \<open>
  The required wattage as the specification words it: the draw plus 100, rounded up to the
  next multiple of 50, then the profile rule.
\<close>

definition required_power_as_specified :: "pc_type \<Rightarrow> rat \<Rightarrow> rat" where
  "required_power_as_specified t draw =
    (let required = of_int \<lceil>(draw + 100) / 50\<rceil> * 50 in
     if t = Gaming then max (required * (13/10)) 650
     else if t = Graphics then max (required * (12/10)) 550
     else max required 450)"

text \<open>
  The PSU price ceiling as the specification words it: half of the surplus, that is of the
  excess of the remaining budget over the ceiling, is added.
\<close>

definition psu_budget_as_specified :: "rat \<Rightarrow> rat \<Rightarrow> int \<Rightarrow> rat" where
  "psu_budget_as_specified allocated minimum remaining =
    (let b = max allocated minimum in
     if of_int remaining > b then min (b + (of_int remaining - b) / 2) (of_int remaining)
     else b)"

text \<open>
  The power draw of a set of selected components: what \<open>total_power\<close> has accumulated when
  the PSU is sized (case and cooler add nothing to it).
\<close>

definition draw_of :: "('a \<Rightarrow> rat) \<Rightarrow> 'a option \<Rightarrow> rat" where
  "draw_of energy part = (case part of None \<Rightarrow> 0 | Some r \<Rightarrow> energy r)"

definition power_draw :: "components \<Rightarrow> rat" where
  "power_draw c =
    draw_of cpu_energy (c_cpu c) + draw_of mb_energy (c_motherboard c)
    + draw_of (\<lambda>r. ram_energy r * of_int (ram_moduls_in_set r)) (c_ram c)
    + draw_of gpu_energy (c_gpu c) + draw_of ssd_energy (c_nvme c)
    + draw_of ssd_energy (c_ssd c) + draw_of storage_energy (c_hdd c)"

section \<open>An example catalog\<close>

text \<open>
  Two DDR4 processors on different sockets, one motherboard for the cheaper processor's
  socket, one RAM kit and one power supply; the other tables exist and are empty.
\<close>

definition cpu_a4 :: cpu_row where
  "cpu_a4 =
    \<lparr>cpu_name = ''A4'', cpu_manufacturer = ''AMD'', cpu_socket = ''AM4'', cpu_cores = 4,
     cpu_clock_frequency = 7/2, cpu_ram_type = ''DDR4'', cpu_heat_gen = 65, cpu_energy = 65,
     cpu_price = 7000\<rparr>"

definition cpu_i8 :: cpu_row where
  "cpu_i8 =
    \<lparr>cpu_name = ''I8'', cpu_manufacturer = ''Intel'', cpu_socket = ''LGA1700'', cpu_cores = 8,
     cpu_clock_frequency = 3, cpu_ram_type = ''DDR4'', cpu_heat_gen = 65, cpu_energy = 65,
     cpu_price = 11000\<rparr>"

definition board_m1 :: motherboard_row where
  "board_m1 =
    \<lparr>motherboard_name = ''M1'', mb_socket = ''AM4'', mb_form_factor = ''ATX'',
     mb_ram_type = ''DDR4'', mb_max_ram_freq = 3200, mb_pcie_v = ''PCIe 4.0'', mb_energy = 30,
     mb_price = 4000\<rparr>"

definition ram_r1 :: ram_row where
  "ram_r1 =
    \<lparr>ram_name = ''R1'', ram_ram_type = ''DDR4'', ram_moduls_in_set = 1, ram_amount = 8,
     ram_clock_freq = 3200, ram_energy = 5, ram_price = 3000\<rparr>"

definition psu_p1 :: psu_row where
  "psu_p1 =
    \<lparr>psu_name = ''P1'', psu_power = 500, psu_certificate = ''Bronze'', psu_price = 3000\<rparr>"

definition shop :: store where
  "shop =
    \<lparr>t_cpu = Some [cpu_a4, cpu_i8], t_motherboard = Some [board_m1], t_ram = Some [ram_r1],
     t_cooling_system = Some [], t_gpu = Some [], t_ssd = Some [], t_storage = Some [],
     t_psu = Some [psu_p1], t_cases = Some [], t_pc = Some [], t_pc_profiles = Some []\<rparr>"

text \<open>
  What \<open>auto_build_pc\<close> returns for this catalog, an unknown profile and a budget of 40000:
  the cheaper processor with its board, the RAM kit and the power supply, no case.
\<close>

definition shop_configuration :: components where
  "shop_configuration =
    empty_components
      \<lparr>c_cpu := Some cpu_a4, c_motherboard := Some board_m1, c_ram := Some ram_r1,
       c_psu := Some psu_p1, c_warnings := Some [No_case]\<rparr>"

text \<open>The same database file without the table \<open>cpu\<close>: the first statement raises.\<close>

definition broken_shop :: store where
  "broken_shop = shop\<lparr>t_cpu := None\<rparr>"

text \<open>The same database with an empty table \<open>cpu\<close>: no processor matches.\<close>

definition empty_shop :: store where
  "empty_shop = shop\<lparr>t_cpu := Some []\<rparr>"

section \<open>Predicates used in the proofs\<close>

text \<open>Every entry of a plan under a key of \<open>S\<close> is non-negative.\<close>

definition nonneg_on :: "category set \<Rightarrow> budgets \<Rightarrow> bool" where
  "nonneg_on S cb = (\<forall>k\<in>S. \<forall>v. cb k = Some v \<longrightarrow> 0 \<le> v)"

text \<open>
  The state between the CPU/motherboard/RAM stage and the sizing of the power supply: the
  three parts are committed, no power supply is, and \<open>total_power\<close> is the draw of what
  has been selected.
\<close>

definition parts_committed :: "cpu_row \<Rightarrow> motherboard_row \<Rightarrow> ram_row \<Rightarrow> build_state \<Rightarrow> bool" where
  "parts_committed cpu mb ram s =
    (c_cpu (comps s) = Some cpu \<and> c_motherboard (comps s) = Some mb
     \<and> c_ram (comps s) = Some ram \<and> c_psu (comps s) = None
     \<and> total_power s = power_draw (comps s))"

section \<open>The share tables\<close>

text \<open>
  Claim C4 (the pre-floor shares of each of the six known profiles sum to exactly 1.0).
  The tables of the server and of the home computer do not: their shares sum to 0.99 and
  to 1.02, while the other four tables (and the default table) sum to 1.
\<close>

theorem server_and_home_shares:
  "sum_list (map snd (distribution Server)) = 99/100
   \<and> sum_list (map snd (distribution Home)) = 102/100
   \<and> sum_list (map snd (distribution Gaming)) = 1
   \<and> sum_list (map snd (distribution Graphics)) = 1
   \<and> sum_list (map snd (distribution Office)) = 1
   \<and> sum_list (map snd (distribution Programming)) = 1
   \<and> sum_list (map snd (distribution Other)) = 1"
  by (simp add: distribution_def default_distribution_def)

section \<open>The minimum floors\<close>

text \<open>
  A floor, once applied, is only undone for the two categories that fund the later
  floors. \<open>hdd\<close> is the last entry of \<open>MIN_BUDGETS\<close>, so nothing is taken from it after its
  own floor; every category other than the case therefore ends at or above its minimum,
  for every profile and every budget.
\<close>

lemma apply_min_own: "apply_min (k, m) cb k = Some v \<Longrightarrow> m \<le> v"
  by (auto simp: apply_min_def Let_def split: option.splits if_splits)

lemma apply_min_other:
  "k \<noteq> fst cm \<Longrightarrow> k \<noteq> K_hdd \<Longrightarrow> k \<noteq> K_case \<Longrightarrow> apply_min cm cb k = cb k"
  by (auto simp: apply_min_def Let_def split: option.splits)

lemma fold_apply_min_other:
  "k \<notin> fst ` set ms \<Longrightarrow> k \<noteq> K_hdd \<Longrightarrow> k \<noteq> K_case \<Longrightarrow> fold apply_min ms cb k = cb k"
  by (induction ms arbitrary: cb) (simp_all add: apply_min_other)

lemma fold_apply_min_floor:
  assumes "distinct (map fst ms)" and "(k, m) \<in> set ms" and "k \<noteq> K_hdd" and "k \<noteq> K_case"
    and "fold apply_min ms cb k = Some v"
  shows "m \<le> v"
  using assms
proof (induction ms arbitrary: cb)
  case Nil
  then show ?case by simp
next
  case (Cons cm ms)
  show ?case
  proof (cases "cm = (k, m)")
    case True
    then have "k \<notin> fst ` set ms" using Cons.prems(1) by auto
    then have "fold apply_min (cm # ms) cb k = apply_min (k, m) cb k"
      using Cons.prems(3,4) True by (simp add: fold_apply_min_other)
    then show ?thesis using Cons.prems(5) apply_min_own by metis
  next
    case False
    then have "(k, m) \<in> set ms" using Cons.prems(2) by simp
    moreover have "distinct (map fst ms)" using Cons.prems(1) by simp
    moreover have "fold apply_min ms (apply_min cm cb) k = Some v" using Cons.prems(5) by simp
    ultimately show ?thesis using Cons.IH Cons.prems(3,4) by blast
  qed
qed

lemma hdd_floor:
  assumes "min_budgets_applied t b K_hdd = Some v" shows "4699 \<le> v"
proof -
  have "min_budgets_applied t b
      = apply_min (K_hdd, 4699) (fold apply_min (butlast MIN_BUDGETS) (raw_budgets t b))"
    by (simp add: min_budgets_applied_def MIN_BUDGETS_def)
  then show ?thesis using assms apply_min_own by metis
qed

lemma floors_hold_except_case:
  assumes "k \<noteq> K_case" and "map_of MIN_BUDGETS k = Some m"
    and "min_budgets_applied t b k = Some v"
  shows "m \<le> v"
proof (cases "k = K_hdd")
  case True
  then have "m = 4699" using assms(2) by (simp add: MIN_BUDGETS_def)
  then show ?thesis using hdd_floor assms(3) True by blast
next
  case False
  have "distinct (map fst MIN_BUDGETS)" by (simp add: MIN_BUDGETS_def)
  moreover have "(k, m) \<in> set MIN_BUDGETS" using assms(2) by (rule map_of_SomeD)
  ultimately show ?thesis
    using fold_apply_min_floor[of MIN_BUDGETS k m "raw_budgets t b" v] False assms(1,3)
    by (simp add: min_budgets_applied_def)
qed

text \<open>
  Claim C3 (after the minimum-floor loop every category of the plan has at least its
  minimum, unless the total budget is below the sum of all minimums). For the gaming
  profile and a budget of 30000, which is above the sum 23592 of the minimums, the loop
  leaves the case with 429.6, below its minimum 1899: the floors of \<open>nvme\<close> and \<open>hdd\<close>,
  which are applied after the floor of \<open>case\<close>, are funded from the case.
  The case is the only category concerned (\<open>floors_hold_except_case\<close>).
\<close>

theorem case_below_minimum:
  "min_budgets_applied Gaming 30000 K_case = Some (4296/10)
   \<and> map_of MIN_BUDGETS K_case = Some 1899
   \<and> sum_list (map snd MIN_BUDGETS) = 23592"
  by (simp add: min_budgets_applied_def raw_budgets_def distribution_def MIN_BUDGETS_def
      apply_min_def get0_def py_int_def)

section \<open>Sizing the power supply\<close>

text \<open>
  Claim C5 as stated (the draw plus 100 W is rounded up to the next multiple of 50) fails:
  for a draw of 420 W and a profile without multiplier the code requires 500 W, the
  stated formula 550 W.
\<close>

theorem required_power_not_rounded_up:
  "required_power Other 420 = 500 \<and> required_power_as_specified Other 420 = 550"
  by code_simp

text \<open>
  Claim C5, amended: the required wattage is the greatest multiple of 50 that does not
  exceed the draw plus 100 W (rounding down), multiplied by 1.3 with a floor of 650 W for
  the gaming profile, by 1.2 with a floor of 550 W for the graphics workstation, and with a
  floor of 450 W and no multiplier for every other profile.
\<close>

theorem required_power_rounds_down:
  "\<exists>k::int. of_int k * 50 \<le> draw + 100 \<and> draw + 100 < of_int k * 50 + 50
    \<and> required_power t draw =
        (if t = Gaming then max (of_int k * 50 * (13/10)) 650
         else if t = Graphics then max (of_int k * 50 * (12/10)) 550
         else max (of_int k * 50) 450)"
proof -
  let ?k = "\<lfloor>(draw + 100) / 50\<rfloor>"
  have below: "of_int ?k \<le> (draw + 100) / 50" by (rule of_int_floor_le)
  have above: "(draw + 100) / 50 < of_int ?k + 1" by linarith
  have "of_int ?k * 50 \<le> draw + 100" using below by (simp add: field_simps)
  moreover have "draw + 100 < of_int ?k * 50 + 50" using above by (simp add: field_simps)
  moreover have "required_power t draw =
        (if t = Gaming then max (of_int ?k * 50 * (13/10)) 650
         else if t = Graphics then max (of_int ?k * 50 * (12/10)) 550
         else max (of_int ?k * 50) 450)"
    by (simp add: required_power_def Let_def)
  ultimately show ?thesis by blast
qed

text \<open>
  Claim C6 as stated (half of the surplus of the remaining budget over the ceiling is
  added) fails: with 1000 allocated and 3000 remaining the code's ceiling is 2500, the
  stated one 2000.
\<close>

theorem psu_budget_not_half_surplus:
  "psu_budget 1000 899 3000 = 2500 \<and> psu_budget_as_specified 1000 899 3000 = 2000"
  by (simp add: psu_budget_def psu_budget_as_specified_def)

text \<open>
  Claim C6, amended: the PSU price ceiling is the maximum of the allocated PSU budget and
  the category minimum 899; whenever the remaining budget exceeds that ceiling, half of the
  remaining budget (rounded down) is added to it, capped at the remaining budget, so that
  the ceiling is then between the maximum and the remaining budget.
\<close>

theorem psu_budget_half_remaining:
  "getitem (map_of MIN_BUDGETS) K_psu = Inr 899
   \<and> (of_int r \<le> max a 899 \<longrightarrow> psu_budget a 899 r = max a 899)
   \<and> (of_int r > max a 899 \<longrightarrow>
        psu_budget a 899 r = min (max a 899 + of_int (r div 2)) (of_int r)
        \<and> max a 899 \<le> psu_budget a 899 r \<and> psu_budget a 899 r \<le> of_int r)"
proof (intro conjI impI)
  show "getitem (map_of MIN_BUDGETS) K_psu = Inr 899"
    by (simp add: getitem_def MIN_BUDGETS_def)
  show "psu_budget a 899 r = max a 899" if "of_int r \<le> max a 899"
    using that by (auto simp add: psu_budget_def Let_def)
  assume more: "max a 899 < of_int r"
  show eq: "psu_budget a 899 r = min (max a 899 + of_int (r div 2)) (of_int r)"
    using more by (simp add: psu_budget_def Let_def)
  have "(899::rat) < of_int r" using more by simp
  then have "0 \<le> r" by linarith
  then have "0 \<le> r div 2" by simp
  then have "(0::rat) \<le> of_int (r div 2)" by simp
  then show "max a 899 \<le> psu_budget a 899 r" using more unfolding eq by simp
  show "psu_budget a 899 r \<le> of_int r" unfolding eq by simp
qed

theorem psu_budget_half_remaining_witness:
  "(of_int (3000::int) > max (1000::rat) 899) \<and> psu_budget 1000 899 3000 = 2500
   \<and> (of_int (500::int) \<le> max (1000::rat) 899) \<and> psu_budget 1000 899 500 = 1000"
  using psu_budget_half_remaining [of 3000 1000] psu_budget_half_remaining [of 500 1000]
  by simp

section \<open>Prebuilt systems: the empty exclusion list\<close>

text \<open>
  Claim C10: with an empty exclusion list \<open>find_next_ready_pc\<close> returns (or raises) exactly
  what \<open>find_best_ready_pc\<close> does for the same store, profile and budget.
\<close>

theorem find_next_without_exclusions:
  "find_next_ready_pc db profile_type budget [] = find_best_ready_pc db profile_type budget"
  by (simp add: find_next_ready_pc_def find_best_ready_pc_def bind_exn_def
      split: sum.split option.split)

section \<open>The budget plan is non-negative\<close>

lemma py_int_nonneg: "0 \<le> x \<Longrightarrow> 0 \<le> py_int x"
  by (simp add: py_int_def)

lemma get0_nonneg: "nonneg_on UNIV cb \<Longrightarrow> 0 \<le> get0 cb k"
  by (auto simp: nonneg_on_def get0_def split: option.splits)

lemma apply_min_nonneg:
  assumes "0 \<le> snd cm" and "nonneg_on S cb"
  shows "nonneg_on (insert (fst cm) S) (apply_min cm cb)"
  using assms
  by (auto simp: nonneg_on_def apply_min_def Let_def split: option.splits if_splits)

lemma fold_apply_min_nonneg:
  assumes "\<forall>cm\<in>set ms. 0 \<le> snd cm" and "nonneg_on S cb"
  shows "nonneg_on (S \<union> fst ` set ms) (fold apply_min ms cb)"
  using assms
proof (induction ms arbitrary: S cb)
  case Nil
  then show ?case by simp
next
  case (Cons cm ms)
  have "nonneg_on (insert (fst cm) S) (apply_min cm cb)"
    using Cons.prems by (intro apply_min_nonneg) auto
  then have "nonneg_on (insert (fst cm) S \<union> fst ` set ms) (fold apply_min ms (apply_min cm cb))"
    using Cons.prems by (intro Cons.IH) auto
  then show ?case by simp
qed

lemma MIN_BUDGETS_keys: "fst ` set MIN_BUDGETS = UNIV"
proof -
  have "k \<in> fst ` set MIN_BUDGETS" for k
    by (cases k) (simp_all add: MIN_BUDGETS_def)
  then show ?thesis by blast
qed

lemma min_budgets_applied_nonneg: "nonneg_on UNIV (min_budgets_applied t b)"
proof -
  have "nonneg_on ({} \<union> fst ` set MIN_BUDGETS) (fold apply_min MIN_BUDGETS (raw_budgets t b))"
    by (rule fold_apply_min_nonneg) (simp_all add: MIN_BUDGETS_def nonneg_on_def)
  then show ?thesis by (simp add: MIN_BUDGETS_keys min_budgets_applied_def)
qed

lemma scale_key_nonneg:
  "0 \<le> f \<Longrightarrow> nonneg_on UNIV cb \<Longrightarrow> nonneg_on UNIV (scale_key f k cb)"
  by (auto simp: nonneg_on_def scale_key_def py_int_nonneg split: option.splits)

lemma expensive_build_nonneg:
  assumes "nonneg_on UNIV cb" shows "nonneg_on UNIV (expensive_build b cb)"
proof (cases "b > 100000")
  case True
  then have "(0::rat) \<le> min (3/2) (of_int b / 100000)" by simp
  then show ?thesis using assms True
    by (simp add: expensive_build_def Let_def scale_key_nonneg)
next
  case False
  then show ?thesis using assms by (simp add: expensive_build_def)
qed

lemma office_server_nonneg:
  assumes "nonneg_on UNIV cb" shows "nonneg_on UNIV (office_server t cb)"
proof -
  have g: "0 \<le> get0 cb k" for k using assms by (rule get0_nonneg)
  have n: "cb K_nvme = Some v \<Longrightarrow> 0 \<le> v" for v using assms by (simp add: nonneg_on_def)
  have h: "0 \<le> v \<Longrightarrow> (0::rat) \<le> of_int \<lfloor>min v 10000 / 2\<rfloor>" for v :: rat by simp
  show ?thesis using assms g n h
    by (auto simp: office_server_def nonneg_on_def Let_def get0_def split: option.splits)
qed

lemma gaming_adjust_nonneg:
  assumes "nonneg_on UNIV cb" shows "nonneg_on UNIV (gaming_adjust t cb)"
  using assms
  by (auto simp: gaming_adjust_def nonneg_on_def Let_def get0_def split: option.splits if_splits)

lemma get_budget_distribution_nonneg: "nonneg_on UNIV (get_budget_distribution t b)"
  unfolding get_budget_distribution_def
  by (intro gaming_adjust_nonneg office_server_nonneg expensive_build_nonneg
      min_budgets_applied_nonneg)

lemma apply_min_dom: "dom cb \<subseteq> dom (apply_min cm cb)"
  by (auto simp: apply_min_def Let_def split: option.splits)

lemma fold_apply_min_dom: "dom cb \<subseteq> dom (fold apply_min ms cb)"
proof (induction ms arbitrary: cb)
  case Nil then show ?case by simp
next
  case (Cons cm ms)
  show ?case using apply_min_dom[of cb cm] Cons.IH[of "apply_min cm cb"] by auto
qed

lemma scale_key_dom: "dom (scale_key f k cb) = dom cb"
  by (auto simp: scale_key_def split: option.splits if_splits)

lemma expensive_build_dom: "dom (expensive_build b cb) = dom cb"
  by (simp add: expensive_build_def Let_def scale_key_dom)

lemma office_server_dom: "dom cb \<subseteq> dom (office_server t cb)"
  by (auto simp: office_server_def Let_def split: option.splits if_splits)

lemma gaming_adjust_dom: "dom cb \<subseteq> dom (gaming_adjust t cb)"
  by (auto simp: gaming_adjust_def Let_def split: option.splits if_splits)

lemma raw_budgets_dom: "dom (raw_budgets t b) = fst ` set (distribution t)"
  by (force simp: raw_budgets_def dom_map_of_conv_image_fst image_image split_def)

lemma get_budget_distribution_dom:
  "fst ` set (distribution t) \<subseteq> dom (get_budget_distribution t b)"
proof -
  have "fst ` set (distribution t) \<subseteq> dom (min_budgets_applied t b)"
    using fold_apply_min_dom[of "raw_budgets t b" MIN_BUDGETS]
    by (simp add: min_budgets_applied_def raw_budgets_dom)
  also have "\<dots> = dom (expensive_build b (min_budgets_applied t b))"
    by (simp add: expensive_build_dom)
  also have "\<dots> \<subseteq> dom (office_server t (expensive_build b (min_budgets_applied t b)))"
    by (rule office_server_dom)
  also have "\<dots> \<subseteq> dom (get_budget_distribution t b)"
    unfolding get_budget_distribution_def by (rule gaming_adjust_dom)
  finally show ?thesis .
qed

text \<open>The keys that \<open>auto_build_pc\<close> subscripts without a guard are in every plan.\<close>

lemma common_keys:
  "k \<in> {K_cpu, K_motherboard, K_ram, K_cooling_system, K_psu, K_case}
    \<Longrightarrow> k \<in> fst ` set (distribution t)"
  by (cases t) (auto simp: distribution_def default_distribution_def)

lemma getitem_common:
  assumes "k \<in> {K_cpu, K_motherboard, K_ram, K_cooling_system, K_psu, K_case}"
  shows "\<exists>v. getitem (get_budget_distribution t b) k = Inr v"
proof -
  have "k \<in> dom (get_budget_distribution t b)"
    using common_keys[OF assms] get_budget_distribution_dom by blast
  then show ?thesis by (auto simp: getitem_def)
qed

text \<open>
  Claim C9: for every profile and every total budget (also a negative one), the plan that
  \<open>get_budget_distribution\<close> returns has an entry for every category of the profile's
  share table, and every entry of the plan is non-negative.
\<close>

theorem budget_entries_nonnegative:
  "(k \<in> fst ` set (distribution t) \<longrightarrow> (\<exists>v. get_budget_distribution t total_budget k = Some v))
   \<and> (\<forall>v. get_budget_distribution t total_budget k = Some v \<longrightarrow> 0 \<le> v)"
  using get_budget_distribution_dom[of t total_budget]
    get_budget_distribution_nonneg[of t total_budget]
  by (auto simp: nonneg_on_def)

theorem budget_entries_nonnegative_witness:
  "K_case \<in> fst ` set (distribution Gaming)
   \<and> get_budget_distribution Gaming 30000 K_case = Some (4296/10)
   \<and> (0::rat) \<le> 4296/10"
  using budget_entries_nonnegative[of K_case Gaming 30000]
  by (simp add: distribution_def get_budget_distribution_def gaming_adjust_def
      office_server_def expensive_build_def min_budgets_applied_def raw_budgets_def
      MIN_BUDGETS_def apply_min_def get0_def py_int_def)

section \<open>Queries and stages of the resolver\<close>

lemma bind_exn_Inr: "bind_exn m f = Inr y \<longleftrightarrow> (\<exists>x. m = Inr x \<and> f x = Inr y)"
  by (cases m) (simp_all add: bind_exn_def)

lemma set_insert_row: "set (insert_row prec x ys) = insert x (set ys)"
  by (induction ys) auto

lemma set_order_by: "set (order_by prec rows) = set rows"
  by (induction rows) (simp_all add: order_by_def set_insert_row)

lemma select_one_Some:
  assumes "select_one cond prec rows = Some r" shows "r \<in> set rows \<and> cond r"
proof -
  have "r \<in> set (order_by prec (filter cond rows))"
    using assms by (auto simp: select_one_def fetchone_def split: list.splits)
  then show ?thesis by (simp add: set_order_by)
qed

lemma select_one_None: "select_one cond prec rows = None \<longleftrightarrow> (\<forall>r\<in>set rows. \<not> cond r)"
proof -
  have "select_one cond prec rows = None \<longleftrightarrow> set (order_by prec (filter cond rows)) = {}"
    by (auto simp: select_one_def fetchone_def split: list.splits)
  then show ?thesis by (auto simp: set_order_by)
qed

lemma cpu_query_Some:
  "cpu_query b brand g rows = Some cpu \<Longrightarrow> like_contains (cpu_ram_type cpu) g"
  unfolding cpu_query_def by (drule select_one_Some) simp

lemma mb_query_Some:
  "mb_query socket g b rows = Some mb \<Longrightarrow> mb_socket mb = socket \<and> like_contains (mb_ram_type mb) g"
  unfolding mb_query_def by (drule select_one_Some) simp

lemma ram_query_Some:
  "ram_query g f b n rows = Some ram \<Longrightarrow> like_contains (ram_ram_type ram) g \<and> ram_clock_freq ram \<le> f"
  unfolding ram_query_def by (drule select_one_Some) simp

lemma try_ram_type_Some:
  assumes "try_ram_type db cb total_budget cpu_brand g = Inr (Some (cpu, mb, ram))"
  shows "mb_socket mb = cpu_socket cpu \<and> like_contains (cpu_ram_type cpu) g
    \<and> like_contains (mb_ram_type mb) g \<and> like_contains (ram_ram_type ram) g
    \<and> ram_clock_freq ram \<le> mb_max_ram_freq mb"
proof -
  from assms obtain b1 cpus b2 mbs b3 rams where
    c: "cpu_query b1 cpu_brand g cpus = Some cpu"
    and m: "mb_query (cpu_socket cpu) g b2 mbs = Some mb"
    and r: "ram_query g (mb_max_ram_freq mb) b3 (if total_budget > 50000 then 2 else 1) rams = Some ram"
    by (auto simp: try_ram_type_def bind_exn_Inr Let_def split: option.splits)
  show ?thesis using cpu_query_Some[OF c] mb_query_Some[OF m] ram_query_Some[OF r] by simp
qed

lemma select_cpu_mb_ram_Some:
  assumes "select_cpu_mb_ram db cb total_budget cpu_brand gs = Inr (Some found)"
  shows "\<exists>g\<in>set gs. try_ram_type db cb total_budget cpu_brand g = Inr (Some found)"
  using assms
  by (induction gs) (auto split: sum.splits option.splits)

lemma power_draw_gpu:
  "c_gpu c = None \<Longrightarrow> power_draw (c\<lparr>c_gpu := Some g\<rparr>) = power_draw c + gpu_energy g"
  by (simp add: power_draw_def draw_of_def)

lemma power_draw_nvme:
  "c_nvme c = None \<Longrightarrow> power_draw (c\<lparr>c_nvme := Some r\<rparr>) = power_draw c + ssd_energy r"
  by (simp add: power_draw_def draw_of_def)

lemma power_draw_ssd:
  "c_ssd c = None \<Longrightarrow> power_draw (c\<lparr>c_ssd := Some r\<rparr>) = power_draw c + ssd_energy r"
  by (simp add: power_draw_def draw_of_def)

lemma power_draw_hdd:
  "c_hdd c = None \<Longrightarrow> power_draw (c\<lparr>c_hdd := Some r\<rparr>) = power_draw c + storage_energy r"
  by (simp add: power_draw_def draw_of_def)

lemma power_draw_other:
  "power_draw (c\<lparr>c_psu := p\<rparr>) = power_draw c"
  "power_draw (c\<lparr>c_case := x\<rparr>) = power_draw c"
  "power_draw (c\<lparr>c_cooling_system := y\<rparr>) = power_draw c"
  "power_draw (c\<lparr>c_warnings := w\<rparr>) = power_draw c"
  by (simp_all add: power_draw_def)

lemma commit_committed:
  "parts_committed cpu mb ram (commit_cpu_mb_ram b cpu mb ram)
   \<and> c_gpu (comps (commit_cpu_mb_ram b cpu mb ram)) = None
   \<and> c_nvme (comps (commit_cpu_mb_ram b cpu mb ram)) = None
   \<and> c_ssd (comps (commit_cpu_mb_ram b cpu mb ram)) = None
   \<and> c_hdd (comps (commit_cpu_mb_ram b cpu mb ram)) = None"
  by (simp add: parts_committed_def commit_cpu_mb_ram_def empty_components_def power_draw_def
      draw_of_def)

lemma select_gpu_cases:
  assumes "select_gpu db cb t mb s = Inr s'"
  shows "(comps s' = comps s \<and> total_power s' = total_power s)
    \<or> (\<exists>g. comps s' = (comps s)\<lparr>c_gpu := Some g\<rparr> \<and> total_power s' = total_power s + gpu_energy g)"
  using assms
  by (fastforce simp: select_gpu_def bind_exn_Inr split: if_splits option.splits)

lemma select_nvme_cases:
  assumes "select_nvme db cb s = Inr s'"
  shows "(comps s' = comps s \<and> total_power s' = total_power s)
    \<or> (\<exists>r. comps s' = (comps s)\<lparr>c_nvme := Some r\<rparr> \<and> total_power s' = total_power s + ssd_energy r)"
  using assms
  by (fastforce simp: select_nvme_def bind_exn_Inr split: if_splits option.splits)

lemma select_ssd_cases:
  assumes "select_ssd db cb s = Inr s'"
  shows "(comps s' = comps s \<and> total_power s' = total_power s)
    \<or> (\<exists>r. comps s' = (comps s)\<lparr>c_ssd := Some r\<rparr> \<and> total_power s' = total_power s + ssd_energy r)"
  using assms
  by (fastforce simp: select_ssd_def bind_exn_Inr split: if_splits option.splits)

lemma select_hdd_cases:
  assumes "select_hdd db cb s = Inr s'"
  shows "(comps s' = comps s \<and> total_power s' = total_power s)
    \<or> (\<exists>r. comps s' = (comps s)\<lparr>c_hdd := Some r\<rparr> \<and> total_power s' = total_power s + storage_energy r)"
  using assms
  by (fastforce simp: select_hdd_def bind_exn_Inr split: if_splits option.splits)

lemma select_gpu_committed:
  assumes "select_gpu db cb t mb0 s = Inr s'" and "parts_committed cpu mb ram s"
    and "c_gpu (comps s) = None" and "c_nvme (comps s) = None"
    and "c_ssd (comps s) = None" and "c_hdd (comps s) = None"
  shows "parts_committed cpu mb ram s' \<and> c_nvme (comps s') = None
    \<and> c_ssd (comps s') = None \<and> c_hdd (comps s') = None"
  using select_gpu_cases[OF assms(1)] assms(2-)
  by (auto simp: parts_committed_def power_draw_gpu)

lemma select_nvme_committed:
  assumes "select_nvme db cb s = Inr s'" and "parts_committed cpu mb ram s"
    and "c_nvme (comps s) = None" and "c_ssd (comps s) = None" and "c_hdd (comps s) = None"
  shows "parts_committed cpu mb ram s' \<and> c_ssd (comps s') = None \<and> c_hdd (comps s') = None"
  using select_nvme_cases[OF assms(1)] assms(2-)
  by (auto simp: parts_committed_def power_draw_nvme)

lemma select_ssd_committed:
  assumes "select_ssd db cb s = Inr s'" and "parts_committed cpu mb ram s"
    and "c_ssd (comps s) = None" and "c_hdd (comps s) = None"
  shows "parts_committed cpu mb ram s' \<and> c_hdd (comps s') = None"
  using select_ssd_cases[OF assms(1)] assms(2-)
  by (auto simp: parts_committed_def power_draw_ssd)

lemma select_hdd_committed:
  assumes "select_hdd db cb s = Inr s'" and "parts_committed cpu mb ram s"
    and "c_hdd (comps s) = None"
  shows "parts_committed cpu mb ram s'"
  using select_hdd_cases[OF assms(1)] assms(2-)
  by (auto simp: parts_committed_def power_draw_hdd)

lemma select_parts_Some:
  assumes "select_parts db t total_budget cpu_brand = Inr (Some (mb, coolers, s))"
  shows "\<exists>cpu ram. parts_committed cpu mb ram s
    \<and> (\<exists>g\<in>set [''DDR5'', ''DDR4''].
          try_ram_type db (get_budget_distribution t total_budget) total_budget cpu_brand g
            = Inr (Some (cpu, mb, ram)))"
proof -
  let ?cb = "get_budget_distribution t total_budget"
  from assms obtain cpu ram s1 s2 s3 where
    found: "select_cpu_mb_ram db ?cb total_budget cpu_brand [''DDR5'', ''DDR4'']
              = Inr (Some (cpu, mb, ram))"
    and g: "select_gpu db ?cb t mb (commit_cpu_mb_ram total_budget cpu mb ram) = Inr s1"
    and n: "select_nvme db ?cb s1 = Inr s2"
    and d: "select_ssd db ?cb s2 = Inr s3"
    and h: "select_hdd db ?cb s3 = Inr s"
    by (auto simp: select_parts_def Let_def bind_exn_Inr split: option.splits)
  note c0 = commit_committed[of cpu mb ram total_budget]
  have r1: "parts_committed cpu mb ram s1 \<and> c_nvme (comps s1) = None
    \<and> c_ssd (comps s1) = None \<and> c_hdd (comps s1) = None"
    by (rule select_gpu_committed[OF g]) (simp_all add: c0)
  have r2: "parts_committed cpu mb ram s2 \<and> c_ssd (comps s2) = None \<and> c_hdd (comps s2) = None"
    by (rule select_nvme_committed[OF n]) (simp_all add: r1)
  have r3: "parts_committed cpu mb ram s3 \<and> c_hdd (comps s3) = None"
    by (rule select_ssd_committed[OF d]) (simp_all add: r2)
  have r4: "parts_committed cpu mb ram s"
    by (rule select_hdd_committed[OF h]) (simp_all add: r3)
  show ?thesis using r4 select_cpu_mb_ram_Some[OF found] by blast
qed

lemma execute_Inr: "execute tbl = Inr rows \<longleftrightarrow> tbl = Some rows"
  by (cases tbl) (simp_all add: execute_def)

lemma select_psu_cases:
  assumes "select_psu db cb t s = Inr s'"
  shows "\<exists>rows. t_psu db = Some rows \<and> total_power s' = total_power s
    \<and> ((\<exists>p\<in>set rows. required_power t (total_power s) \<le> psu_power p
           \<and> comps s' = (comps s)\<lparr>c_psu := Some p\<rparr>)
        \<or> ((\<forall>p\<in>set rows. \<not> required_power t (total_power s) \<le> psu_power p)
           \<and> comps s' = comps s))"
proof -
  let ?req = "required_power t (total_power s)"
  from assms obtain a m rows where a: "getitem cb K_psu = Inr a"
    and m: "getitem (map_of MIN_BUDGETS) K_psu = Inr m" and rows: "t_psu db = Some rows"
    by (auto simp: select_psu_def bind_exn_Inr Let_def execute_Inr)
  let ?first = "psu_query ?req (psu_budget a m (remaining_budget s)) rows"
  have run: "select_psu db cb t s =
      (case (case ?first of Some p \<Rightarrow> Some p | None \<Rightarrow> psu_any_query ?req rows) of
         Some p \<Rightarrow> Inr (s\<lparr>comps := (comps s)\<lparr>c_psu := Some p\<rparr>,
                        remaining_budget := remaining_budget s - psu_price p\<rparr>)
       | None \<Rightarrow> Inr (s\<lparr>warnings := warnings s @ [No_psu]\<rparr>))"
    using a m rows by (simp add: select_psu_def bind_exn_def Let_def execute_def)
  show ?thesis
  proof (cases ?first)
    case (Some p)
    then have "p \<in> set rows \<and> ?req \<le> psu_power p"
      unfolding psu_query_def by (auto dest: select_one_Some)
    moreover have "s' = s\<lparr>comps := (comps s)\<lparr>c_psu := Some p\<rparr>,
                        remaining_budget := remaining_budget s - psu_price p\<rparr>"
      using assms run Some by simp
    ultimately show ?thesis using rows by auto
  next
    case None
    show ?thesis
    proof (cases "psu_any_query ?req rows")
      case (Some p)
      then have "p \<in> set rows \<and> ?req \<le> psu_power p"
        unfolding psu_any_query_def by (auto dest: select_one_Some)
      moreover have "s' = s\<lparr>comps := (comps s)\<lparr>c_psu := Some p\<rparr>,
                        remaining_budget := remaining_budget s - psu_price p\<rparr>"
        using assms run Some None by simp
      ultimately show ?thesis using rows by auto
    next
      case n: None
      then have "\<forall>p\<in>set rows. \<not> ?req \<le> psu_power p"
        unfolding psu_any_query_def by (simp add: select_one_None)
      moreover have "s' = s\<lparr>warnings := warnings s @ [No_psu]\<rparr>"
        using assms run n None by simp
      ultimately show ?thesis using rows by auto
    qed
  qed
qed


lemma select_case_run:
  "case select_case db cb mb coolers s of
     Inl e \<Rightarrow> True
   | Inr s' \<Rightarrow>
       c_cpu (comps s') = c_cpu (comps s) \<and> c_motherboard (comps s') = c_motherboard (comps s)
       \<and> c_ram (comps s') = c_ram (comps s) \<and> c_psu (comps s') = c_psu (comps s)
       \<and> power_draw (comps s') = power_draw (comps s)"
  by (simp add: select_case_def bind_exn_def Let_def power_draw_other
      split: sum.split option.split)

lemma select_case_kept:
  assumes "select_case db cb mb coolers s = Inr s'"
  shows "c_cpu (comps s') = c_cpu (comps s) \<and> c_motherboard (comps s') = c_motherboard (comps s)
    \<and> c_ram (comps s') = c_ram (comps s) \<and> c_psu (comps s') = c_psu (comps s)
    \<and> power_draw (comps s') = power_draw (comps s)"
  using select_case_run[where db=db and cb=cb and mb=mb and coolers=coolers and s=s] assms
  by simp


lemma finish_Some:
  assumes "finish s = Some c"
  shows "c_cpu c = c_cpu (comps s) \<and> c_motherboard c = c_motherboard (comps s)
    \<and> c_ram c = c_ram (comps s) \<and> c_psu c = c_psu (comps s)
    \<and> power_draw c = power_draw (comps s)
    \<and> c_cpu c \<noteq> None \<and> c_motherboard c \<noteq> None \<and> c_ram c \<noteq> None \<and> c_psu c \<noteq> None"
  using assms
  by (auto simp: finish_def Let_def power_draw_other split: if_splits)

lemma auto_build_pc_Some:
  assumes "auto_build_pc db t total_budget cpu_brand = Some c"
  shows "\<exists>mb coolers s4 s5 s6.
    select_parts db t total_budget cpu_brand = Inr (Some (mb, coolers, s4))
    \<and> select_psu db (get_budget_distribution t total_budget) t s4 = Inr s5
    \<and> select_case db (get_budget_distribution t total_budget) mb coolers s5 = Inr s6
    \<and> finish s6 = Some c"
  using assms
  by (auto simp: auto_build_pc_def auto_build_body_def Let_def bind_exn_Inr
      split: sum.splits option.splits)

lemma shop_resolves: "auto_build_pc shop Other 40000 None = Some shop_configuration"
  by code_simp


lemma shop_parts:
  "select_parts shop Other 40000 None
    = Inr (Some (board_m1, [], commit_cpu_mb_ram 40000 cpu_a4 board_m1 ram_r1))"
  by code_simp

lemma try_ram_type_fault:
  assumes "t_cpu db = None" and "getitem cb K_cpu = Inr v"
  shows "try_ram_type db cb total_budget cpu_brand g = Inl OperationalError"
  using assms by (simp add: try_ram_type_def bind_exn_def execute_def)








lemma shop_body: "auto_build_body shop Other 40000 None = Inr (Some shop_configuration)"
  by code_simp

lemma broken_shop_body: "auto_build_body broken_shop Other 40000 None = Inl OperationalError"
  by code_simp

section \<open>The returned configuration\<close>

text \<open>
  Claim C1: a configuration that \<open>auto_build_pc\<close> returns has a CPU, a motherboard, RAM
  and a power supply; and the check at the end of the run yields the failure \<open>None\<close>, with
  nothing of the partial selection, whenever one of the four is missing from the state.
\<close>

theorem required_components_present:
  "(auto_build_pc db t total_budget cpu_brand = Some c \<longrightarrow>
      c_cpu c \<noteq> None \<and> c_motherboard c \<noteq> None \<and> c_ram c \<noteq> None \<and> c_psu c \<noteq> None)
   \<and> (c_cpu (comps s) = None \<or> c_motherboard (comps s) = None \<or> c_ram (comps s) = None
        \<or> c_psu (comps s) = None \<longrightarrow> finish s = None)"
proof (rule conjI)
  show "auto_build_pc db t total_budget cpu_brand = Some c \<longrightarrow>
      c_cpu c \<noteq> None \<and> c_motherboard c \<noteq> None \<and> c_ram c \<noteq> None \<and> c_psu c \<noteq> None"
  proof (rule impI)
    assume "auto_build_pc db t total_budget cpu_brand = Some c"
    then obtain s6 where "finish s6 = Some c" using auto_build_pc_Some by blast
    then show "c_cpu c \<noteq> None \<and> c_motherboard c \<noteq> None \<and> c_ram c \<noteq> None \<and> c_psu c \<noteq> None"
      using finish_Some by blast
  qed
  show "c_cpu (comps s) = None \<or> c_motherboard (comps s) = None \<or> c_ram (comps s) = None
        \<or> c_psu (comps s) = None \<longrightarrow> finish s = None"
    by (auto simp: finish_def Let_def)
qed

theorem required_components_present_witness:
  "auto_build_pc shop Other 40000 None = Some shop_configuration
   \<and> c_cpu shop_configuration \<noteq> None \<and> c_motherboard shop_configuration \<noteq> None
   \<and> c_ram shop_configuration \<noteq> None \<and> c_psu shop_configuration \<noteq> None
   \<and> c_psu (comps (commit_cpu_mb_ram 40000 cpu_a4 board_m1 ram_r1)) = None
   \<and> finish (commit_cpu_mb_ram 40000 cpu_a4 board_m1 ram_r1) = None"
proof -
  have "c_psu (comps (commit_cpu_mb_ram 40000 cpu_a4 board_m1 ram_r1)) = None"
    by (simp add: commit_cpu_mb_ram_def empty_components_def)
  then show ?thesis
    using shop_resolves
      required_components_present[of shop Other 40000 None shop_configuration
            "commit_cpu_mb_ram 40000 cpu_a4 board_m1 ram_r1"]
    by simp
qed

text \<open>
  Claim C2: in every configuration that \<open>auto_build_pc\<close> returns, the motherboard's socket
  equals the CPU's socket; for one of the two memory generations the CPU's and the
  motherboard's \<open>ram_type\<close> columns contain it (the code's notion of support, the \<open>LIKE\<close>
  test) and the RAM's \<open>ram_type\<close> does too; the RAM's clock frequency does not exceed the
  motherboard's \<open>max_ram_freq\<close>; and the power supply's wattage is at least the requirement
  computed from the power draw of the selected components.
\<close>

theorem configuration_invariants:
  assumes "auto_build_pc db t total_budget cpu_brand = Some c"
  shows "\<exists>cpu mb ram psu.
    c_cpu c = Some cpu \<and> c_motherboard c = Some mb \<and> c_ram c = Some ram \<and> c_psu c = Some psu
    \<and> mb_socket mb = cpu_socket cpu
    \<and> (\<exists>g\<in>set [''DDR5'', ''DDR4''].
          like_contains (cpu_ram_type cpu) g \<and> like_contains (mb_ram_type mb) g
          \<and> like_contains (ram_ram_type ram) g)
    \<and> ram_clock_freq ram \<le> mb_max_ram_freq mb
    \<and> required_power t (power_draw c) \<le> psu_power psu"
proof -
  let ?cb = "get_budget_distribution t total_budget"
  from auto_build_pc_Some[OF assms] obtain mb coolers s4 s5 s6 where
    parts: "select_parts db t total_budget cpu_brand = Inr (Some (mb, coolers, s4))"
    and psu: "select_psu db ?cb t s4 = Inr s5"
    and cs: "select_case db ?cb mb coolers s5 = Inr s6"
    and fin: "finish s6 = Some c" by blast
  from select_parts_Some[OF parts] obtain cpu ram g where
    com: "parts_committed cpu mb ram s4" and g: "g \<in> set [''DDR5'', ''DDR4'']"
    and tr: "try_ram_type db ?cb total_budget cpu_brand g = Inr (Some (cpu, mb, ram))"
    by blast
  note f = finish_Some[OF fin]
  note k = select_case_kept[OF cs]
  from f k have "c_psu (comps s5) \<noteq> None" by metis
  with select_psu_cases[OF psu] com obtain p where
    p: "required_power t (total_power s4) \<le> psu_power p"
    and c5: "comps s5 = (comps s4)\<lparr>c_psu := Some p\<rparr>"
    by (auto simp: parts_committed_def)
  have pd: "power_draw c = total_power s4"
    using f k c5 com by (simp add: power_draw_other parts_committed_def)
  have "c_cpu c = Some cpu \<and> c_motherboard c = Some mb \<and> c_ram c = Some ram \<and> c_psu c = Some p"
    using f k c5 com by (simp add: parts_committed_def)
  moreover have "required_power t (power_draw c) \<le> psu_power p" using p pd by simp
  ultimately show ?thesis using try_ram_type_Some[OF tr] g by blast
qed

theorem configuration_invariants_witness:
  "auto_build_pc shop Other 40000 None = Some shop_configuration
   \<and> mb_socket board_m1 = cpu_socket cpu_a4
   \<and> ram_clock_freq ram_r1 \<le> mb_max_ram_freq board_m1
   \<and> required_power Other (power_draw shop_configuration) \<le> psu_power psu_p1"
  using configuration_invariants[OF shop_resolves] shop_resolves
  by (auto simp: shop_configuration_def empty_components_def)

section \<open>Larger budgets\<close>





section \<open>Store faults\<close>

text \<open>
  Every exception raised in the body, in particular the one raised by the first statement
  when the table \<open>cpu\<close> cannot be read, makes \<open>auto_build_pc\<close> return \<open>None\<close>. A run in which
  no CPU, motherboard and RAM match for any memory generation returns \<open>None\<close> too, so this
  kind of run without a match is not told from a fault by the returned value.
\<close>

lemma exception_or_no_triple_returns_None:
  "(auto_build_body db t total_budget cpu_brand = Inl e
      \<longrightarrow> auto_build_pc db t total_budget cpu_brand = None)
   \<and> (t_cpu db = None
      \<longrightarrow> auto_build_body db t total_budget cpu_brand = Inl OperationalError)
   \<and> (select_cpu_mb_ram db (get_budget_distribution t total_budget) total_budget cpu_brand
        [''DDR5'', ''DDR4''] = Inr None
      \<longrightarrow> auto_build_body db t total_budget cpu_brand = Inr None
          \<and> auto_build_pc db t total_budget cpu_brand = None)"
proof (intro conjI impI)
  let ?cb = "get_budget_distribution t total_budget"
  show "auto_build_pc db t total_budget cpu_brand = None"
    if "auto_build_body db t total_budget cpu_brand = Inl e"
    using that by (simp add: auto_build_pc_def)
  show "auto_build_body db t total_budget cpu_brand = Inl OperationalError" if "t_cpu db = None"
  proof -
    obtain v where v: "getitem ?cb K_cpu = Inr v" using getitem_common[of K_cpu] by auto
    have "select_cpu_mb_ram db ?cb total_budget cpu_brand [''DDR5'', ''DDR4'']
            = Inl OperationalError"
      by (simp add: try_ram_type_fault[OF that v])
    then show ?thesis
      by (simp add: auto_build_body_def select_parts_def Let_def bind_exn_def)
  qed
  assume none: "select_cpu_mb_ram db ?cb total_budget cpu_brand [''DDR5'', ''DDR4''] = Inr None"
  then show body: "auto_build_body db t total_budget cpu_brand = Inr None"
    by (simp add: auto_build_body_def select_parts_def Let_def bind_exn_def)
  show "auto_build_pc db t total_budget cpu_brand = None"
    using body by (simp add: auto_build_pc_def)
qed

lemma no_cpu_returns_None:
  "auto_build_body empty_shop Other 40000 None = Inr None
   \<and> auto_build_pc empty_shop Other 40000 None = None"
  by code_simp

text \<open>
  Claim C8 (for some run with a store fault and some run in which the catalog is available
  but a matching component is missing, the two returned values differ). Without the table
  \<open>cpu\<close> the first statement raises and \<open>auto_build_pc\<close> returns \<open>None\<close>. With the whole
  catalog readable and no case in it, no statement raises, no case matches, and
  \<open>auto_build_pc\<close> returns a configuration without a case that carries the warning
  \<open>No_case\<close>.
\<close>

theorem store_fault_differs_from_no_case:
  "t_cpu broken_shop = None
   \<and> auto_build_body broken_shop Other 40000 None = Inl OperationalError
   \<and> auto_build_pc broken_shop Other 40000 None = None
   \<and> t_cases shop = Some []
   \<and> auto_build_body shop Other 40000 None = Inr (Some shop_configuration)
   \<and> auto_build_pc shop Other 40000 None = Some shop_configuration
   \<and> c_case shop_configuration = None
   \<and> c_warnings shop_configuration = Some [No_case]
   \<and> auto_build_pc broken_shop Other 40000 None \<noteq> auto_build_pc shop Other 40000 None"
proof -
  have "t_cpu broken_shop = None" by (simp add: broken_shop_def)
  moreover have "t_cases shop = Some []" by (simp add: shop_def)
  moreover have "c_case shop_configuration = None
      \<and> c_warnings shop_configuration = Some [No_case]"
    by (simp add: shop_configuration_def empty_components_def)
  moreover have "auto_build_pc broken_shop Other 40000 None = None"
    by (simp add: auto_build_pc_def broken_shop_body)
  ultimately show ?thesis using shop_body broken_shop_body shop_resolves by simp
qed

end
